theory Spec2Isabelle
  imports Complex_Main
begin

section \<open>The Dandolo Python SDK: request dispatch, builders and readers\<close>

text \<open>
  A shallow embedding of \<^verbatim>\<open>dandolo/client.py\<close>, \<^verbatim>\<open>dandolo/exceptions.py\<close> and the
  \<^verbatim>\<open>Model\<close> dataclass of \<^verbatim>\<open>dandolo/types.py\<close>.

  Conventions of the embedding:
  \<^item> Python values that are decoded from JSON, or passed on to be encoded as JSON, are
    values of the type \<open>py\<close>. A \<^verbatim>\<open>dict\<close> is an association list in insertion order;
    a \<^verbatim>\<open>float\<close> is idealised as a real number.
  \<^item> Strings are lists of 8-bit characters; \<^verbatim>\<open>str.upper\<close> is modelled on the ASCII
    letters and leaves every other character unchanged.
  \<^item> An exception that leaves a function is the \<open>Inl\<close> side of its result.
  \<^item> The HTTP layer (\<^verbatim>\<open>requests.Session\<close>) is a script \<open>nat \<Rightarrow> outcome\<close>: the outcome
    of the k-th call that one \<^verbatim>\<open>_request\<close> issues. Every HTTP call and every
    \<^verbatim>\<open>time.sleep\<close> is recorded, in order, in a list of events returned with the result.
\<close>

subsection \<open>Python values\<close>

datatype py =
    PNone
  | PBool bool
  | PInt int
  | PFloat real
  | PStr string
  | PList "py list"
  | PDict "(string \<times> py) list"

subsection \<open>exceptions.py\<close>

text \<open>
  One constructor per exception class that can leave the code. The classes of
  \<^verbatim>\<open>exceptions.py\<close> carry \<^verbatim>\<open>message\<close> (whatever value the caller passed).
  \<open>DandoloError\<close> stands for direct instances of the base class and carries the
  \<^verbatim>\<open>code\<close> it was given (\<open>None\<close> by default); each subclass fixes its own
  \<^verbatim>\<open>code\<close>, which is therefore no argument of its constructor. \<open>RateLimitError\<close>
  also carries \<^verbatim>\<open>retry_after\<close>. \<open>ValueError\<close>, \<open>TypeError\<close>,
  \<open>AttributeError\<close>, \<open>OverflowError\<close> are Python's built-in classes, \<open>JSONDecodeError\<close> is the one
  \<^verbatim>\<open>response.json()\<close> raises; the texts of the last four are not modelled.
\<close>

datatype exception =
    DandoloError py "string option"
  | AuthenticationError py
  | RateLimitError py "string option"
  | ModelNotFoundError py
  | ValidationError py
  | ServerError py
  | NetworkError py
  | ValueError string
  | TypeError
  | AttributeError
  | OverflowError
  | JSONDecodeError

fun isinstance_DandoloError :: "exception \<Rightarrow> bool" where
  "isinstance_DandoloError (DandoloError m c) = True"
| "isinstance_DandoloError (AuthenticationError m) = True"
| "isinstance_DandoloError (RateLimitError m ra) = True"
| "isinstance_DandoloError (ModelNotFoundError m) = True"
| "isinstance_DandoloError (ValidationError m) = True"
| "isinstance_DandoloError (ServerError m) = True"
| "isinstance_DandoloError (NetworkError m) = True"
| "isinstance_DandoloError (ValueError s) = False"
| "isinstance_DandoloError TypeError = False"
| "isinstance_DandoloError AttributeError = False"
| "isinstance_DandoloError OverflowError = False"
| "isinstance_DandoloError JSONDecodeError = False"

subsection \<open>Strings\<close>

definition upper_char :: "char \<Rightarrow> char" where
  "upper_char c =
     (case map_of (zip ''abcdefghijklmnopqrstuvwxyz'' ''ABCDEFGHIJKLMNOPQRSTUVWXYZ'') c of
        Some u \<Rightarrow> u
      | None \<Rightarrow> c)"

definition upper :: "string \<Rightarrow> string" where
  "upper s = map upper_char s"

fun startswith :: "string \<Rightarrow> string \<Rightarrow> bool" where
  "startswith s [] = True"
| "startswith [] (p # ps) = False"
| "startswith (c # cs) (p # ps) = (c = p \<and> startswith cs ps)"

text \<open>\<^verbatim>\<open>sub in s\<close> for strings: \<open>sub\<close> occurs in \<open>s\<close> as a contiguous substring.\<close>

fun contains :: "string \<Rightarrow> string \<Rightarrow> bool" where
  "contains [] sub = (sub = [])"
| "contains (c # cs) sub = (startswith (c # cs) sub \<or> contains cs sub)"

definition rstrip :: "string \<Rightarrow> char \<Rightarrow> string" where
  "rstrip s ch = rev (dropWhile (\<lambda>c. c = ch) (rev s))"

text \<open>\<^verbatim>\<open>str(n)\<close> for an integer, as the f-strings of the source format a status code.\<close>

definition digit_char :: "nat \<Rightarrow> char" where
  "digit_char n = ''0123456789'' ! n"

fun str_nat :: "nat \<Rightarrow> string" where
  "str_nat n = (if n < 10 then [digit_char n] else str_nat (n div 10) @ [digit_char (n mod 10)])"

declare str_nat.simps [simp del]

definition str_int :: "int \<Rightarrow> string" where
  "str_int i = (if i < 0 then CHR ''-'' # str_nat (nat (- i)) else str_nat (nat i))"

subsection \<open>Dictionaries\<close>

text \<open>\<^verbatim>\<open>d[k] = v\<close>: an existing key keeps its place, a new one is appended.\<close>

fun dict_setitem :: "(string \<times> py) list \<Rightarrow> string \<Rightarrow> py \<Rightarrow> (string \<times> py) list" where
  "dict_setitem [] k v = [(k, v)]"
| "dict_setitem ((k', v') # d) k v =
     (if k' = k then (k, v) # d else (k', v') # dict_setitem d k v)"

text \<open>\<^verbatim>\<open>d.update(other)\<close>: the items of \<open>other\<close> are stored one after the other.\<close>

fun dict_update :: "(string \<times> py) list \<Rightarrow> (string \<times> py) list \<Rightarrow> (string \<times> py) list" where
  "dict_update d [] = d"
| "dict_update d ((k, v) # other) = dict_update (dict_setitem d k v) other"

text \<open>
  \<^verbatim>\<open>x.get(k, default)\<close>: only a \<^verbatim>\<open>dict\<close> has the method among the values JSON decodes
  to; on any other value the attribute lookup raises \<^verbatim>\<open>AttributeError\<close>.
\<close>

fun py_get :: "py \<Rightarrow> string \<Rightarrow> py \<Rightarrow> exception + py" where
  "py_get (PDict d) k dflt = Inr (case map_of d k of Some v \<Rightarrow> v | None \<Rightarrow> dflt)"
| "py_get x k dflt = Inl AttributeError"

text \<open>
  Iterating a value: a list yields its elements, a string its characters, a dict its
  keys; nothing else that JSON decodes to is iterable.
\<close>

fun py_iter :: "py \<Rightarrow> exception + py list" where
  "py_iter (PList xs) = Inr xs"
| "py_iter (PStr s) = Inr (map (\<lambda>c. PStr [c]) s)"
| "py_iter (PDict d) = Inr (map (\<lambda>kv. PStr (fst kv)) d)"
| "py_iter x = Inl TypeError"

subsection \<open>The HTTP layer and the client\<close>

text \<open>
  A response as the code reads it: \<^verbatim>\<open>status_code\<close>, \<^verbatim>\<open>content\<close> (the raw body),
  \<^verbatim>\<open>json()\<close> (\<open>None\<close> when the body does not decode, where the call raises) and
  \<^verbatim>\<open>headers\<close>, looked up by header name.
\<close>

record response =
  status_code :: int
  content :: string
  json :: "py option"
  headers :: "string \<Rightarrow> string option"

datatype outcome = Responds response | Timeout | ConnectionError

datatype event =
    HttpGet string int
  | HttpPost string "py option" int
  | Sleep real

record client =
  api_key :: string
  base_url :: string
  timeout :: int
  max_retries :: int
  retry_delay :: real
  session_headers :: "(string \<times> string) list"

text \<open>
  \<^verbatim>\<open>Dandolo.__init__\<close>. The second component of the result is the list of HTTP calls and
  sleeps the constructor performs: it performs none.
\<close>

definition Dandolo_init ::
  "string option \<Rightarrow> string \<Rightarrow> int \<Rightarrow> int \<Rightarrow> real \<Rightarrow> (exception + client) \<times> event list" where
  "Dandolo_init key url tmo retries delay =
     (case key of
        None \<Rightarrow> (Inl (ValueError ''API key is required''), [])
      | Some k \<Rightarrow>
          if k = [] then (Inl (ValueError ''API key is required''), [])
          else if \<not> (startswith k ''dk_'' \<or> startswith k ''ak_'') then
            (Inl (ValueError ''API key must start with 'dk_' (developer) or 'ak_' (agent)''), [])
          else
            (Inr \<lparr> api_key = k, base_url = rstrip url CHR ''/'', timeout = tmo,
                   max_retries = retries, retry_delay = delay,
                   session_headers =
                     [(''Authorization'', ''Bearer '' @ k),
                      (''Content-Type'', ''application/json''),
                      (''User-Agent'', ''dandolo-python-sdk/1.0.0'')] \<rparr>, []))"

subsection \<open>The request dispatcher\<close>

text \<open>What one pass through the loop body does: go on to the next attempt, return, or raise.\<close>

datatype step = Continue "event list" | Return py "event list" | Raise exception "event list"

text \<open>
  \<^verbatim>\<open>error_data = response.json() if response.content else {}\<close> followed by
  \<^verbatim>\<open>error_data.get("error", {}).get("message", default)\<close>.
\<close>

definition error_message :: "response \<Rightarrow> py \<Rightarrow> exception + py" where
  "error_message r dflt =
     (case (if content r \<noteq> [] then json r else Some (PDict [])) of
        None \<Rightarrow> Inl JSONDecodeError
      | Some error_data \<Rightarrow>
          (case py_get error_data ''error'' (PDict []) of
             Inl e \<Rightarrow> Inl e
           | Inr err \<Rightarrow> py_get err ''message'' dflt))"

text \<open>
  \<^verbatim>\<open>time.sleep(self.retry_delay * (2 ** attempt))\<close> followed by \<^verbatim>\<open>continue\<close>, the two
  lines the source repeats in its three retry branches; \<open>ev\<close> is the HTTP call of the
  attempt. The interpreter raises in three cases, and nothing in \<^verbatim>\<open>_request\<close> catches
  what it raises:
  \<^item> the integer \<open>2 ** attempt\<close> has to be converted to a float for the product, which
    is an \<open>OverflowError\<close> from \<open>2 ** 1024\<close> on;
  \<^item> \<^verbatim>\<open>time.sleep\<close> refuses a negative duration with a \<open>ValueError\<close>;
  \<^item> \<^verbatim>\<open>time.sleep\<close> refuses with an \<open>OverflowError\<close> a duration that does not fit
    its clock, a signed 64-bit count of nanoseconds in CPython (an infinite product of
    floats among them).
  Below these limits the product of a float and a power of two is exact, so it is computed
  over the reals.
\<close>

definition sleep_limit :: real where
  "sleep_limit = (2 ^ 63 - 1) / 10 ^ 9"

definition time_sleep :: "real \<Rightarrow> exception + real" where
  "time_sleep secs =
     (if secs < 0 then Inl (ValueError ''sleep length must be non-negative'')
      else if sleep_limit < secs then Inl OverflowError
      else Inr secs)"

definition sleep_and_continue :: "client \<Rightarrow> int \<Rightarrow> event \<Rightarrow> step" where
  "sleep_and_continue c attempt ev =
     (if 1024 \<le> attempt then Raise OverflowError [ev]
      else (case time_sleep (retry_delay c * 2 ^ nat attempt) of
              Inl e \<Rightarrow> Raise e [ev]
            | Inr secs \<Rightarrow> Continue [ev, Sleep secs]))"

text \<open>
  The chain over \<^verbatim>\<open>response.status_code\<close>; \<open>ev\<close> is the HTTP call that produced the
  response.
\<close>

definition handle_response ::
  "client \<Rightarrow> string \<Rightarrow> int \<Rightarrow> event \<Rightarrow> response \<Rightarrow> step" where
  "handle_response c endpoint attempt ev r =
     (if status_code r = 200 then
        (case json r of None \<Rightarrow> Raise JSONDecodeError [ev] | Some v \<Rightarrow> Return v [ev])
      else if status_code r = 401 then
        Raise (AuthenticationError (PStr ''Invalid API key'')) [ev]
      else if status_code r = 429 then
        (case error_message r (PStr ''Rate limit exceeded'') of
           Inl e \<Rightarrow> Raise e [ev]
         | Inr m \<Rightarrow> Raise (RateLimitError m (headers r ''Retry-After'')) [ev])
      else if status_code r = 404 then
        (if contains endpoint ''model'' then
           Raise (ModelNotFoundError (PStr ''Specified model not found'')) [ev]
         else Raise (DandoloError (PStr (''Endpoint not found: '' @ endpoint)) None) [ev])
      else if status_code r = 400 then
        (case error_message r (PStr ''Invalid request'') of
           Inl e \<Rightarrow> Raise e [ev]
         | Inr m \<Rightarrow> Raise (ValidationError m) [ev])
      else if status_code r \<ge> 500 then
        (if attempt < max_retries c then
           sleep_and_continue c attempt ev
         else
           Raise (DandoloError (PStr (''Server error: '' @ str_int (status_code r))) None) [ev])
      else
        (case error_message r (PStr (''Unknown error: '' @ str_int (status_code r))) of
           Inl e \<Rightarrow> Raise e [ev]
         | Inr m \<Rightarrow> Raise (DandoloError m None) [ev]))"

text \<open>
  The \<^verbatim>\<open>try\<close> block with its two handlers, after the call \<open>ev\<close> has been issued and
  has had the outcome \<open>out\<close>.
\<close>

definition handle_outcome ::
  "client \<Rightarrow> string \<Rightarrow> int \<Rightarrow> event \<Rightarrow> outcome \<Rightarrow> step" where
  "handle_outcome c endpoint attempt ev out =
     (case out of
        Responds r \<Rightarrow> handle_response c endpoint attempt ev r
      | Timeout \<Rightarrow>
          (if attempt < max_retries c then
             sleep_and_continue c attempt ev
           else Raise (DandoloError (PStr ''Request timeout'') None) [ev])
      | ConnectionError \<Rightarrow>
          (if attempt < max_retries c then
             sleep_and_continue c attempt ev
           else Raise (DandoloError (PStr ''Connection error'') None) [ev]))"

text \<open>The loop body for one value of \<^verbatim>\<open>attempt\<close>.\<close>

definition attempt_once ::
  "client \<Rightarrow> (nat \<Rightarrow> outcome) \<Rightarrow> string \<Rightarrow> string \<Rightarrow> py option \<Rightarrow> int \<Rightarrow> step" where
  "attempt_once c tr method endpoint data attempt =
     (let url = base_url c @ endpoint in
      if upper method = ''GET'' then
        handle_outcome c endpoint attempt (HttpGet url (timeout c)) (tr (nat attempt))
      else if upper method = ''POST'' then
        handle_outcome c endpoint attempt (HttpPost url data (timeout c)) (tr (nat attempt))
      else Raise (ValueError (''Unsupported HTTP method: '' @ method)) [])"

text \<open>
  \<^verbatim>\<open>for attempt in range(...)\<close> over the attempts still to run; when the range is
  used up the statement after the loop raises.
\<close>

fun request_attempts ::
  "client \<Rightarrow> (nat \<Rightarrow> outcome) \<Rightarrow> string \<Rightarrow> string \<Rightarrow> py option \<Rightarrow> int list
     \<Rightarrow> (exception + py) \<times> event list" where
  "request_attempts c tr method endpoint data [] =
     (Inl (DandoloError (PStr ''Max retries exceeded'') None), [])"
| "request_attempts c tr method endpoint data (attempt # rest) =
     (case attempt_once c tr method endpoint data attempt of
        Continue evs \<Rightarrow>
          (case request_attempts c tr method endpoint data rest of
             (res, evs') \<Rightarrow> (res, evs @ evs'))
      | Return v evs \<Rightarrow> (Inr v, evs)
      | Raise e evs \<Rightarrow> (Inl e, evs))"

text \<open>\<^verbatim>\<open>range(n)\<close>: empty when \<open>n \<le> 0\<close>.\<close>

definition py_range :: "int \<Rightarrow> int list" where
  "py_range n = map int [0..<nat n]"

definition request ::
  "client \<Rightarrow> (nat \<Rightarrow> outcome) \<Rightarrow> string \<Rightarrow> string \<Rightarrow> py option
     \<Rightarrow> (exception + py) \<times> event list" where
  "request c tr method endpoint data =
     request_attempts c tr method endpoint data (py_range (max_retries c + 1))"




subsection \<open>ChatCompletions.create\<close>

text \<open>
  The parameters of \<^verbatim>\<open>create\<close> after the call has been bound to the signature
  \<^verbatim>\<open>(self, messages, model="auto-select", max_tokens=None, temperature=None,
  stream=False, **kwargs)\<close>.
\<close>

record create_args =
  messages :: py
  model :: py
  max_tokens :: py
  temperature :: py
  stream :: py
  kwargs :: "(string \<times> py) list"

definition create_params :: "string list" where
  "create_params = [''messages'', ''model'', ''max_tokens'', ''temperature'', ''stream'']"

text \<open>
  Binding one named parameter, the \<open>i\<close>-th after \<^verbatim>\<open>self\<close>: from the positional
  arguments when there are enough of them (a keyword argument of the same name is then
  a \<^verbatim>\<open>TypeError\<close>), else from the keyword arguments, else the default; a parameter
  without default that is not given is a \<^verbatim>\<open>TypeError\<close>.
\<close>

definition bind_param ::
  "py list \<Rightarrow> (string \<times> py) list \<Rightarrow> nat \<Rightarrow> string \<Rightarrow> py option \<Rightarrow> exception + py" where
  "bind_param args kw i name dflt =
     (if i < length args then
        (if name \<in> set (map fst kw) then Inl TypeError else Inr (args ! i))
      else
        (case map_of kw name of
           Some v \<Rightarrow> Inr v
         | None \<Rightarrow> (case dflt of Some v \<Rightarrow> Inr v | None \<Rightarrow> Inl TypeError)))"

text \<open>
  A call \<^verbatim>\<open>create(*args, **kw)\<close> on a \<^verbatim>\<open>ChatCompletions\<close> object: too many positional
  arguments, a repeated keyword or the keyword \<^verbatim>\<open>self\<close> are \<^verbatim>\<open>TypeError\<close>s; the
  keyword arguments that name no parameter are collected, in order, in \<^verbatim>\<open>kwargs\<close>.
\<close>

definition bind_create :: "py list \<Rightarrow> (string \<times> py) list \<Rightarrow> exception + create_args" where
  "bind_create args kw =
     (if length args > 5 \<or> \<not> distinct (map fst kw) \<or> ''self'' \<in> set (map fst kw) then
        Inl TypeError
      else
        (case bind_param args kw 0 ''messages'' None of Inl e \<Rightarrow> Inl e | Inr me \<Rightarrow>
        (case bind_param args kw 1 ''model'' (Some (PStr ''auto-select'')) of Inl e \<Rightarrow> Inl e | Inr mo \<Rightarrow>
        (case bind_param args kw 2 ''max_tokens'' (Some PNone) of Inl e \<Rightarrow> Inl e | Inr mt \<Rightarrow>
        (case bind_param args kw 3 ''temperature'' (Some PNone) of Inl e \<Rightarrow> Inl e | Inr te \<Rightarrow>
        (case bind_param args kw 4 ''stream'' (Some (PBool False)) of Inl e \<Rightarrow> Inl e | Inr st \<Rightarrow>
           Inr \<lparr> messages = me, model = mo, max_tokens = mt, temperature = te, stream = st,
                 kwargs = filter (\<lambda>kv. fst kv \<notin> set create_params) kw \<rparr>))))))"

text \<open>The body of \<^verbatim>\<open>create\<close> up to the call of the dispatcher: the dictionary \<^verbatim>\<open>data\<close>.\<close>

definition create_data :: "create_args \<Rightarrow> (string \<times> py) list" where
  "create_data a =
     (let data = [(''model'', model a), (''messages'', messages a), (''stream'', stream a)];
          data = (if max_tokens a \<noteq> PNone
                  then dict_setitem data ''max_tokens'' (max_tokens a) else data);
          data = (if temperature a \<noteq> PNone
                  then dict_setitem data ''temperature'' (temperature a) else data)
      in dict_update data (kwargs a))"

definition create ::
  "client \<Rightarrow> (nat \<Rightarrow> outcome) \<Rightarrow> py list \<Rightarrow> (string \<times> py) list
     \<Rightarrow> (exception + py) \<times> event list" where
  "create c tr args kw =
     (case bind_create args kw of
        Inl e \<Rightarrow> (Inl e, [])
      | Inr a \<Rightarrow> request c tr ''POST'' ''/v1/chat/completions'' (Some (PDict (create_data a))))"

text \<open>
  The required fields as the specification lists them: model, messages and stream, and
  max\_tokens and temperature when they are given.
\<close>

definition required_fields :: "create_args \<Rightarrow> (string \<times> py) list" where
  "required_fields a =
     [(''model'', model a), (''messages'', messages a), (''stream'', stream a)]
     @ (if max_tokens a \<noteq> PNone then [(''max_tokens'', max_tokens a)] else [])
     @ (if temperature a \<noteq> PNone then [(''temperature'', temperature a)] else [])"

subsection \<open>types.Model and Models.list\<close>

text \<open>
  The dataclass \<^verbatim>\<open>Model\<close>. A dataclass does not check the types of its fields, so each
  field holds whatever value the server sent. (The field names carry a prefix: \<open>id\<close>
  is taken in HOL.)
\<close>

record Model =
  model_id :: py
  model_object :: py
  model_created :: py
  model_owned_by :: py
  model_type :: py
  model_context_length :: py

definition Model_fields :: "string list" where
  "Model_fields = [''id'', ''object'', ''created'', ''owned_by'', ''type'', ''context_length'']"

text \<open>
  \<^verbatim>\<open>Model(**m)\<close> followed by \<^verbatim>\<open>__post_init__\<close>; \<open>now\<close> is what \<^verbatim>\<open>int(time.time())\<close>
  returns at that moment. Unpacking a value that is no mapping, a key that is no field
  and a missing \<^verbatim>\<open>id\<close> are \<^verbatim>\<open>TypeError\<close>s.
\<close>

definition Model_init :: "int \<Rightarrow> py \<Rightarrow> exception + Model" where
  "Model_init now m =
     (case m of
        PDict d \<Rightarrow>
          if \<not> list_all (\<lambda>kv. fst kv \<in> set Model_fields) d then Inl TypeError
          else
            (case map_of d ''id'' of
               None \<Rightarrow> Inl TypeError
             | Some i \<Rightarrow>
                 (let field = (\<lambda>k dflt. case map_of d k of Some v \<Rightarrow> v | None \<Rightarrow> dflt);
                      cr = field ''created'' PNone
                  in Inr \<lparr> model_id = i,
                           model_object = field ''object'' (PStr ''model''),
                           model_created = (if cr = PNone then PInt now else cr),
                           model_owned_by = field ''owned_by'' (PStr ''dandolo''),
                           model_type = field ''type'' PNone,
                           model_context_length = field ''context_length'' PNone \<rparr>))
      | _ \<Rightarrow> Inl TypeError)"

text \<open>
  The list comprehension: the elements are constructed in order and the first exception
  ends it. \<open>now i\<close> is the clock while element \<open>i\<close> is constructed.
\<close>

fun construct_models :: "(nat \<Rightarrow> int) \<Rightarrow> nat \<Rightarrow> py list \<Rightarrow> exception + Model list" where
  "construct_models now i [] = Inr []"
| "construct_models now i (x # xs) =
     (case Model_init (now i) x of
        Inl e \<Rightarrow> Inl e
      | Inr m \<Rightarrow>
          (case construct_models now (Suc i) xs of
             Inl e \<Rightarrow> Inl e
           | Inr ms \<Rightarrow> Inr (m # ms)))"

text \<open>What \<^verbatim>\<open>Models.list\<close> does with the value the dispatcher returned.\<close>

definition models_of_response :: "(nat \<Rightarrow> int) \<Rightarrow> py \<Rightarrow> exception + Model list" where
  "models_of_response now response =
     (case py_get response ''data'' (PList []) of
        Inl e \<Rightarrow> Inl e
      | Inr data \<Rightarrow>
          (case py_iter data of
             Inl e \<Rightarrow> Inl e
           | Inr xs \<Rightarrow> construct_models now 0 xs))"

definition Models_list ::
  "client \<Rightarrow> (nat \<Rightarrow> outcome) \<Rightarrow> (nat \<Rightarrow> int) \<Rightarrow> (exception + Model list) \<times> event list" where
  "Models_list c tr now =
     (case request c tr ''GET'' ''/v1/models'' None of
        (Inl e, evs) \<Rightarrow> (Inl e, evs)
      | (Inr response, evs) \<Rightarrow> (models_of_response now response, evs))"

subsection \<open>Dandolo.validate\_key\<close>

definition validate_key ::
  "client \<Rightarrow> (nat \<Rightarrow> outcome) \<Rightarrow> (exception + (string \<times> py) list) \<times> event list" where
  "validate_key c tr =
     (case request c tr ''GET'' ''/v1/models'' None of
        (Inr response, evs) \<Rightarrow>
          (let key_type = (if startswith (api_key c) ''ak_'' then ''agent'' else ''developer'');
               daily_limit = (if key_type = ''agent'' then 5000 else 500)
           in (Inr [(''is_valid'', PBool True),
                    (''key_type'', PStr key_type),
                    (''daily_usage'', PInt 0),
                    (''daily_limit'', PInt daily_limit),
                    (''remaining'', PInt daily_limit)], evs))
      | (Inl e, evs) \<Rightarrow>
          if isinstance_DandoloError e then
            (Inr [(''is_valid'', PBool False),
                  (''key_type'', PNone),
                  (''daily_usage'', PNone),
                  (''daily_limit'', PNone),
                  (''remaining'', PNone)], evs)
          else (Inl e, evs))"

subsection \<open>Vocabulary of the statements\<close>

text \<open>The HTTP call an attempt issues for a supported method.\<close>

definition http_call :: "client \<Rightarrow> string \<Rightarrow> string \<Rightarrow> py option \<Rightarrow> event" where
  "http_call c method endpoint data =
     (if upper method = ''GET'' then HttpGet (base_url c @ endpoint) (timeout c)
      else HttpPost (base_url c @ endpoint) data (timeout c))"


text \<open>
  The error bodies \<^verbatim>\<open>error_message\<close> reads without raising: no body at all, or a JSON object
  whose member \<^verbatim>\<open>error\<close> is absent or is itself an object.
\<close>

definition wellformed_error_body :: "response \<Rightarrow> bool" where
  "wellformed_error_body r =
     (content r = [] \<or>
      (case json r of
         Some (PDict d) \<Rightarrow>
           (case map_of d ''error'' of None \<Rightarrow> True | Some (PDict e) \<Rightarrow> True | Some _ \<Rightarrow> False)
       | _ \<Rightarrow> False))"

text \<open>The member \<^verbatim>\<open>error.message\<close> of a response body, when there is one.\<close>

definition error_message_field :: "response \<Rightarrow> py option" where
  "error_message_field r =
     (if content r = [] then None
      else (case json r of
              Some (PDict d) \<Rightarrow>
                (case map_of d ''error'' of Some (PDict e) \<Rightarrow> map_of e ''message'' | _ \<Rightarrow> None)
            | _ \<Rightarrow> None))"

text \<open>
  The elements \<^verbatim>\<open>Model(**x)\<close> accepts: objects that have an \<^verbatim>\<open>id\<close> and no member
  outside the six fields of the dataclass.
\<close>

definition wellformed_model :: "py \<Rightarrow> bool" where
  "wellformed_model x =
     (case x of
        PDict e \<Rightarrow> list_all (\<lambda>kv. fst kv \<in> set Model_fields) e \<and> map_of e ''id'' \<noteq> None
      | _ \<Rightarrow> False)"

subsection \<open>Concrete inputs\<close>

text \<open>
  An HTTP layer that has the same outcome at every call, and one that plays a list of
  outcomes and then stays at a final one.
\<close>

definition always :: "outcome \<Rightarrow> nat \<Rightarrow> outcome" where
  "always out k = out"


definition example_client :: client where
  "example_client =
     \<lparr> api_key = ''ak_0123456789abcdef'', base_url = ''https://api.dandolo.ai'', timeout = 60,
       max_retries = 3, retry_delay = 1,
       session_headers =
         [(''Authorization'', ''Bearer ak_0123456789abcdef''),
          (''Content-Type'', ''application/json''),
          (''User-Agent'', ''dandolo-python-sdk/1.0.0'')] \<rparr>"

text \<open>
  Responses without a body, with a body that decodes to \<open>v\<close> (the text of the body is a
  stand-in: the dispatcher only tests it for emptiness) and with a body that does not
  decode.
\<close>

definition plain_response :: "int \<Rightarrow> response" where
  "plain_response s = \<lparr> status_code = s, content = [], json = None, headers = Map.empty \<rparr>"

definition json_response :: "int \<Rightarrow> py \<Rightarrow> response" where
  "json_response s v = \<lparr> status_code = s, content = ''{...}'', json = Some v, headers = Map.empty \<rparr>"

definition text_response :: "int \<Rightarrow> string \<Rightarrow> response" where
  "text_response s body = \<lparr> status_code = s, content = body, json = None, headers = Map.empty \<rparr>"

definition with_header :: "response \<Rightarrow> string \<Rightarrow> string \<Rightarrow> response" where
  "with_header r name v = r \<lparr> headers := (headers r)(name \<mapsto> v) \<rparr>"

definition example_completion :: py where
  "example_completion =
     PDict [(''choices'',
             PList [PDict [(''index'', PInt 0),
                           (''message'', PDict [(''role'', PStr ''assistant''),
                                                (''content'', PStr ''hi'')])]]),
            (''id'', PStr ''x'')]"

definition example_messages :: py where
  "example_messages = PList [PDict [(''role'', PStr ''user''), (''content'', PStr ''Hello!'')]]"

definition example_clock :: "nat \<Rightarrow> int" where
  "example_clock i = 1700000000 + int i"

section \<open>Properties of the dispatcher\<close>

subsection \<open>The loop\<close>

lemma py_range_Suc: "0 \<le> n \<Longrightarrow> py_range (n + 1) = 0 # map int [1..<nat (n + 1)]"
  by (simp add: py_range_def upt_conv_Cons del: upt_Suc)

text \<open>With a negative retry count the range is empty and no attempt is made.\<close>

lemma request_no_attempt:
  assumes "max_retries c < 0"
  shows "request c tr method endpoint data =
           (Inl (DandoloError (PStr ''Max retries exceeded'') None), [])"
  using assms by (simp add: request_def py_range_def)

lemma request_first_Raise:
  assumes "0 \<le> max_retries c" and "attempt_once c tr method endpoint data 0 = Raise e evs"
  shows "request c tr method endpoint data = (Inl e, evs)"
  using assms by (simp add: request_def py_range_Suc)

lemma request_first_Return:
  assumes "0 \<le> max_retries c" and "attempt_once c tr method endpoint data 0 = Return v evs"
  shows "request c tr method endpoint data = (Inr v, evs)"
  using assms by (simp add: request_def py_range_Suc)

lemma attempt_once_supported:
  assumes "upper method = ''GET'' \<or> upper method = ''POST''"
  shows "attempt_once c tr method endpoint data attempt =
           handle_outcome c endpoint attempt (http_call c method endpoint data) (tr (nat attempt))"
  using assms by (auto simp: attempt_once_def http_call_def)



subsection \<open>Responses of the server-error class\<close>










text \<open>
  When a delay of the schedule is negative, \<^verbatim>\<open>time.sleep\<close> raises after the first call
  and the retries do not happen.
\<close>

lemma request_negative_delay_example:
  "request (example_client \<lparr> retry_delay := - 1 \<rparr>) (always (Responds (plain_response 503)))
     ''GET'' ''/v1/models'' None =
     (Inl (ValueError ''sleep length must be non-negative''),
      [HttpGet ''https://api.dandolo.ai/v1/models'' 60])"
proof -
  let ?c = "example_client \<lparr> retry_delay := - 1 \<rparr>"
  have c: "0 \<le> max_retries ?c" by (simp add: example_client_def)
  have "attempt_once ?c (always (Responds (plain_response 503))) ''GET'' ''/v1/models'' None 0 =
          Raise (ValueError ''sleep length must be non-negative'')
            [HttpGet ''https://api.dandolo.ai/v1/models'' 60]"
    by (simp add: example_client_def attempt_once_def handle_outcome_def
                  handle_response_def sleep_and_continue_def time_sleep_def always_def
                  plain_response_def upper_def upper_char_def)
  then show ?thesis by (rule request_first_Raise[OF c])
qed



subsection \<open>Outcomes that end the call at the first attempt\<close>

lemma error_message_wellformed:
  assumes "wellformed_error_body r"
  shows "error_message r dflt =
           Inr (case error_message_field r of Some v \<Rightarrow> v | None \<Rightarrow> dflt)"
proof (cases "content r = []")
  case True
  then show ?thesis by (simp add: error_message_def error_message_field_def)
next
  case False
  with assms obtain d where d: "json r = Some (PDict d)"
    by (auto simp: wellformed_error_body_def split: option.splits py.splits)
  show ?thesis
  proof (cases "map_of d ''error''")
    case None
    with False d show ?thesis by (simp add: error_message_def error_message_field_def)
  next
    case (Some e)
    with assms False d obtain e' where "e = PDict e'"
      by (auto simp: wellformed_error_body_def split: py.splits)
    with Some False d show ?thesis by (simp add: error_message_def error_message_field_def)
  qed
qed

text \<open>Outside the well-formed bodies the extraction raises.\<close>

lemma py_get_not_dict:
  assumes "\<forall>d. x \<noteq> PDict d"
  shows "py_get x k dflt = Inl AttributeError"
  using assms by (cases x) simp_all

lemma error_message_malformed:
  assumes "\<not> wellformed_error_body r"
  shows "error_message r dflt = Inl JSONDecodeError \<or> error_message r dflt = Inl AttributeError"
proof -
  have body: "content r \<noteq> []" using assms by (simp add: wellformed_error_body_def)
  show ?thesis
  proof (cases "json r")
    case None
    with body show ?thesis by (simp add: error_message_def)
  next
    case (Some v)
    show ?thesis
    proof (cases "\<exists>d. v = PDict d")
      case False
      then have "py_get v ''error'' (PDict []) = Inl AttributeError"
        by (simp add: py_get_not_dict)
      with body Some show ?thesis by (simp add: error_message_def)
    next
      case True
      then obtain d where d: "v = PDict d" by blast
      from assms body Some d obtain e where e: "map_of d ''error'' = Some e" "\<forall>d'. e \<noteq> PDict d'"
        by (cases "map_of d ''error''") (auto simp: wellformed_error_body_def split: py.splits)
      then have "py_get e ''message'' dflt = Inl AttributeError"
        by (simp add: py_get_not_dict)
      with body Some d e show ?thesis by (simp add: error_message_def)
    qed
  qed
qed

text \<open>
  C4 (as amended). With a non-negative retry count, a method that is neither GET nor POST
  after upper-casing makes the first attempt raise at once: no HTTP call is issued and
  nothing is slept. The exception is Python's built-in \<open>ValueError\<close> with the text
  \<^verbatim>\<open>Unsupported HTTP method: <method>\<close>; it is no instance of \<open>DandoloError\<close> and has no
  \<^verbatim>\<open>code\<close>.
\<close>

theorem request_unsupported_method:
  assumes "0 \<le> max_retries c"
    and "upper method \<noteq> ''GET''" and "upper method \<noteq> ''POST''"
  shows "request c tr method endpoint data =
           (Inl (ValueError (''Unsupported HTTP method: '' @ method)), [])
       \<and> \<not> isinstance_DandoloError (ValueError (''Unsupported HTTP method: '' @ method))"
proof -
  have "attempt_once c tr method endpoint data 0 =
          Raise (ValueError (''Unsupported HTTP method: '' @ method)) []"
    using assms(2,3) by (simp add: attempt_once_def)
  then show ?thesis using request_first_Raise[OF assms(1)] by simp
qed

theorem request_unsupported_method_witness:
  "request example_client (always (Responds (json_response 200 example_completion)))
     ''DELETE'' ''/v1/models'' None =
     (Inl (ValueError ''Unsupported HTTP method: DELETE''), [])"
proof -
  have c: "0 \<le> max_retries example_client" by (simp add: example_client_def)
  have m: "upper ''DELETE'' \<noteq> ''GET''" "upper ''DELETE'' \<noteq> ''POST''"
    by (simp_all add: upper_def upper_char_def)
  show ?thesis
    using request_unsupported_method[OF c m, of "always (Responds (json_response 200 example_completion))"
        "''/v1/models''" None]
    by simp
qed

text \<open>
  The claim as stated fails: for the method \<^verbatim>\<open>PUT\<close> the exception that leaves
  \<^verbatim>\<open>_request\<close> is a \<open>ValueError\<close>, which is not an instance of the base class of the
  taxonomy.
\<close>

theorem request_unsupported_method_counterexample:
  "fst (request example_client (always Timeout) ''PUT'' ''/v1/chat/completions'' None) =
     Inl (ValueError ''Unsupported HTTP method: PUT'')
   \<and> \<not> isinstance_DandoloError (ValueError ''Unsupported HTTP method: PUT'')"
  by code_simp

text \<open>
  C6. When the first attempt receives status 404, the dispatcher raises after that one
  call, without sleeping: \<open>ModelNotFoundError\<close> if the endpoint contains \<^verbatim>\<open>model\<close>, and
  otherwise a direct instance of the base class \<open>DandoloError\<close> (so not a
  \<open>ModelNotFoundError\<close>).
\<close>

theorem request_not_found:
  assumes "0 \<le> max_retries c"
    and "upper method = ''GET'' \<or> upper method = ''POST''"
    and "tr 0 = Responds r" and "status_code r = 404"
  shows "(contains endpoint ''model'' \<longrightarrow>
            request c tr method endpoint data =
              (Inl (ModelNotFoundError (PStr ''Specified model not found'')),
               [http_call c method endpoint data]))
       \<and> (\<not> contains endpoint ''model'' \<longrightarrow>
            request c tr method endpoint data =
              (Inl (DandoloError (PStr (''Endpoint not found: '' @ endpoint)) None),
               [http_call c method endpoint data]))"
proof -
  have "attempt_once c tr method endpoint data 0 =
          Raise (if contains endpoint ''model''
                 then ModelNotFoundError (PStr ''Specified model not found'')
                 else DandoloError (PStr (''Endpoint not found: '' @ endpoint)) None)
            [http_call c method endpoint data]"
    using assms(3,4)
    by (simp add: attempt_once_supported[OF assms(2)] handle_outcome_def handle_response_def)
  then show ?thesis using request_first_Raise[OF assms(1)] by simp
qed

theorem request_not_found_witness:
  "request example_client (always (Responds (plain_response 404))) ''GET'' ''/v1/models'' None =
     (Inl (ModelNotFoundError (PStr ''Specified model not found'')),
      [HttpGet ''https://api.dandolo.ai/v1/models'' 60])
   \<and> request example_client (always (Responds (plain_response 404))) ''GET'' ''/v1/usage'' None =
     (Inl (DandoloError (PStr ''Endpoint not found: /v1/usage'') None),
      [HttpGet ''https://api.dandolo.ai/v1/usage'' 60])"
proof -
  let ?tr = "always (Responds (plain_response 404))"
  have c: "0 \<le> max_retries example_client" by (simp add: example_client_def)
  have m: "upper ''GET'' = ''GET'' \<or> upper ''GET'' = ''POST''"
    by (simp add: upper_def upper_char_def)
  have t: "?tr 0 = Responds (plain_response 404)" by (simp add: always_def)
  have s: "status_code (plain_response 404) = 404" by (simp add: plain_response_def)
  have yes: "contains ''/v1/models'' ''model''" by simp
  have no: "\<not> contains ''/v1/usage'' ''model''" by simp
  have ev: "http_call example_client ''GET'' ''/v1/models'' None =
              HttpGet ''https://api.dandolo.ai/v1/models'' 60"
           "http_call example_client ''GET'' ''/v1/usage'' None =
              HttpGet ''https://api.dandolo.ai/v1/usage'' 60"
    by (simp_all add: http_call_def example_client_def upper_def upper_char_def)
  show ?thesis
    using request_not_found[of example_client "''GET''" ?tr "plain_response 404" "''/v1/models''" None, OF c m t s]
          request_not_found[of example_client "''GET''" ?tr "plain_response 404" "''/v1/usage''" None, OF c m t s]
          yes no
    by (simp add: ev)
qed

text \<open>
  A 429 with a well-formed error body (no body, or a JSON object whose member \<^verbatim>\<open>error\<close>
  is absent or an object) ends the call after one attempt, without a sleep, with a
  \<open>RateLimitError\<close> whose \<^verbatim>\<open>retry_after\<close> is the value of the header
  \<^verbatim>\<open>Retry-After\<close> when the response has one and \<open>None\<close> when it has none.
\<close>

theorem request_rate_limited:
  assumes "0 \<le> max_retries c"
    and "upper method = ''GET'' \<or> upper method = ''POST''"
    and "tr 0 = Responds r" and "status_code r = 429"
    and "wellformed_error_body r"
  shows "request c tr method endpoint data =
           (Inl (RateLimitError
                   (case error_message_field r of
                      Some v \<Rightarrow> v
                    | None \<Rightarrow> PStr ''Rate limit exceeded'')
                   (headers r ''Retry-After'')),
            [http_call c method endpoint data])"
proof -
  have "attempt_once c tr method endpoint data 0 =
          Raise (RateLimitError
                   (case error_message_field r of
                      Some v \<Rightarrow> v
                    | None \<Rightarrow> PStr ''Rate limit exceeded'')
                   (headers r ''Retry-After''))
            [http_call c method endpoint data]"
    using assms(3,4)
    by (simp add: attempt_once_supported[OF assms(2)] handle_outcome_def handle_response_def
                  error_message_wellformed[OF assms(5)])
  then show ?thesis using request_first_Raise[OF assms(1)] by simp
qed

theorem request_rate_limited_witness:
  "request example_client
     (always (Responds (with_header (plain_response 429) ''Retry-After'' ''30'')))
     ''POST'' ''/v1/chat/completions'' (Some (PDict [])) =
     (Inl (RateLimitError (PStr ''Rate limit exceeded'') (Some ''30'')),
      [HttpPost ''https://api.dandolo.ai/v1/chat/completions'' (Some (PDict [])) 60])
   \<and> request example_client (always (Responds (plain_response 429)))
     ''POST'' ''/v1/chat/completions'' (Some (PDict [])) =
     (Inl (RateLimitError (PStr ''Rate limit exceeded'') None),
      [HttpPost ''https://api.dandolo.ai/v1/chat/completions'' (Some (PDict [])) 60])"
proof -
  let ?r = "with_header (plain_response 429) ''Retry-After'' ''30''"
  let ?r' = "plain_response 429"
  have c: "0 \<le> max_retries example_client" by (simp add: example_client_def)
  have m: "upper ''POST'' = ''GET'' \<or> upper ''POST'' = ''POST''"
    by (simp add: upper_def upper_char_def)
  have t: "always (Responds ?r) 0 = Responds ?r" "always (Responds ?r') 0 = Responds ?r'"
    by (simp_all add: always_def)
  have s: "status_code ?r = 429" "status_code ?r' = 429"
    by (simp_all add: plain_response_def with_header_def)
  have w: "wellformed_error_body ?r" "wellformed_error_body ?r'"
    by (simp_all add: wellformed_error_body_def plain_response_def with_header_def)
  have f: "error_message_field ?r = None" "error_message_field ?r' = None"
    by (simp_all add: error_message_field_def plain_response_def with_header_def)
  have h: "headers ?r ''Retry-After'' = Some ''30''" "headers ?r' ''Retry-After'' = None"
    by (simp_all add: plain_response_def with_header_def)
  have ev: "http_call example_client ''POST'' ''/v1/chat/completions'' (Some (PDict [])) =
              HttpPost ''https://api.dandolo.ai/v1/chat/completions'' (Some (PDict [])) 60"
    by (simp add: http_call_def example_client_def upper_def upper_char_def)
  show ?thesis
    using request_rate_limited[of example_client "''POST''" "always (Responds ?r)" ?r
            "''/v1/chat/completions''" "Some (PDict [])", OF c m t(1) s(1) w(1)]
          request_rate_limited[of example_client "''POST''" "always (Responds ?r')" ?r'
            "''/v1/chat/completions''" "Some (PDict [])", OF c m t(2) s(2) w(2)]
    by (simp add: f h ev)
qed

text \<open>
  C5. Every response with status 429 is to end the call after one attempt with a
  \<open>RateLimitError\<close> that carries the \<^verbatim>\<open>Retry-After\<close> header. The code does not do so
  for a 429 whose body is not JSON: for the HTML page below, sent with
  \<^verbatim>\<open>Retry-After: 30\<close>, \<^verbatim>\<open>response.json()\<close> raises while the message is extracted, and
  that exception, which is no \<open>DandoloError\<close>, leaves the dispatcher; the header is
  never read.
\<close>

theorem request_rate_limited_undecodable_body:
  "request example_client
     (always (Responds (with_header (text_response 429 ''<html>Too Many Requests</html>'')
                          ''Retry-After'' ''30'')))
     ''GET'' ''/v1/models'' None =
     (Inl JSONDecodeError, [HttpGet ''https://api.dandolo.ai/v1/models'' 60])
   \<and> \<not> isinstance_DandoloError JSONDecodeError"
  by code_simp

text \<open>
  A 400 with a well-formed error body ends the call after one attempt, without a sleep,
  with a \<open>ValidationError\<close> whose message is the member \<^verbatim>\<open>error.message\<close> of the body
  when there is one, and the string \<^verbatim>\<open>Invalid request\<close> when the body, the member
  \<^verbatim>\<open>error\<close> or the member \<^verbatim>\<open>message\<close> is missing.
\<close>

theorem request_validation_error:
  assumes "0 \<le> max_retries c"
    and "upper method = ''GET'' \<or> upper method = ''POST''"
    and "tr 0 = Responds r" and "status_code r = 400"
    and "wellformed_error_body r"
  shows "request c tr method endpoint data =
           (Inl (ValidationError
                   (case error_message_field r of
                      Some v \<Rightarrow> v
                    | None \<Rightarrow> PStr ''Invalid request'')),
            [http_call c method endpoint data])"
proof -
  have "attempt_once c tr method endpoint data 0 =
          Raise (ValidationError
                   (case error_message_field r of
                      Some v \<Rightarrow> v
                    | None \<Rightarrow> PStr ''Invalid request''))
            [http_call c method endpoint data]"
    using assms(3,4)
    by (simp add: attempt_once_supported[OF assms(2)] handle_outcome_def handle_response_def
                  error_message_wellformed[OF assms(5)])
  then show ?thesis using request_first_Raise[OF assms(1)] by simp
qed

theorem request_validation_error_witness:
  "request example_client
     (always (Responds (json_response 400
        (PDict [(''error'', PDict [(''message'', PStr ''messages must not be empty'')])]))))
     ''POST'' ''/v1/chat/completions'' (Some (PDict [])) =
     (Inl (ValidationError (PStr ''messages must not be empty'')),
      [HttpPost ''https://api.dandolo.ai/v1/chat/completions'' (Some (PDict [])) 60])
   \<and> request example_client
     (always (Responds (json_response 400 (PDict [(''error'', PDict [])]))))
     ''POST'' ''/v1/chat/completions'' (Some (PDict [])) =
     (Inl (ValidationError (PStr ''Invalid request'')),
      [HttpPost ''https://api.dandolo.ai/v1/chat/completions'' (Some (PDict [])) 60])
   \<and> request example_client (always (Responds (plain_response 400)))
     ''POST'' ''/v1/chat/completions'' (Some (PDict [])) =
     (Inl (ValidationError (PStr ''Invalid request'')),
      [HttpPost ''https://api.dandolo.ai/v1/chat/completions'' (Some (PDict [])) 60])"
proof -
  let ?r1 = "json_response 400
        (PDict [(''error'', PDict [(''message'', PStr ''messages must not be empty'')])])"
  let ?r2 = "json_response 400 (PDict [(''error'', PDict [])])"
  let ?r3 = "plain_response 400"
  have c: "0 \<le> max_retries example_client" by (simp add: example_client_def)
  have m: "upper ''POST'' = ''GET'' \<or> upper ''POST'' = ''POST''"
    by (simp add: upper_def upper_char_def)
  have t: "always (Responds ?r1) 0 = Responds ?r1" "always (Responds ?r2) 0 = Responds ?r2"
          "always (Responds ?r3) 0 = Responds ?r3"
    by (simp_all add: always_def)
  have s: "status_code ?r1 = 400" "status_code ?r2 = 400" "status_code ?r3 = 400"
    by (simp_all add: plain_response_def json_response_def)
  have w: "wellformed_error_body ?r1" "wellformed_error_body ?r2" "wellformed_error_body ?r3"
    by (simp_all add: wellformed_error_body_def plain_response_def json_response_def)
  have f: "error_message_field ?r1 = Some (PStr ''messages must not be empty'')"
          "error_message_field ?r2 = None" "error_message_field ?r3 = None"
    by (simp_all add: error_message_field_def plain_response_def json_response_def)
  have ev: "http_call example_client ''POST'' ''/v1/chat/completions'' (Some (PDict [])) =
              HttpPost ''https://api.dandolo.ai/v1/chat/completions'' (Some (PDict [])) 60"
    by (simp add: http_call_def example_client_def upper_def upper_char_def)
  show ?thesis
    using request_validation_error[of example_client "''POST''" "always (Responds ?r1)" ?r1
            "''/v1/chat/completions''" "Some (PDict [])", OF c m t(1) s(1) w(1)]
          request_validation_error[of example_client "''POST''" "always (Responds ?r2)" ?r2
            "''/v1/chat/completions''" "Some (PDict [])", OF c m t(2) s(2) w(2)]
          request_validation_error[of example_client "''POST''" "always (Responds ?r3)" ?r3
            "''/v1/chat/completions''" "Some (PDict [])", OF c m t(3) s(3) w(3)]
    by (simp add: f ev)
qed

text \<open>
  C7. Every response with status 400 is to raise a \<open>ValidationError\<close>, with the default
  message when the body has no \<^verbatim>\<open>error.message\<close>. The code does not do so for the body
  \<^verbatim>\<open>{"error": "messages must not be empty"}\<close>: the member \<^verbatim>\<open>error\<close> is a string, the
  second \<^verbatim>\<open>.get\<close> raises \<open>AttributeError\<close>, and that exception, which is no
  \<open>DandoloError\<close>, leaves the dispatcher.
\<close>

theorem request_validation_error_error_not_object:
  "request example_client
     (always (Responds (json_response 400
        (PDict [(''error'', PStr ''messages must not be empty'')]))))
     ''POST'' ''/v1/chat/completions'' (Some (PDict [])) =
     (Inl AttributeError,
      [HttpPost ''https://api.dandolo.ai/v1/chat/completions'' (Some (PDict [])) 60])
   \<and> \<not> isinstance_DandoloError AttributeError"
  by code_simp

section \<open>Construction of the client\<close>

text \<open>
  C8. A key that is missing, or that starts neither with \<^verbatim>\<open>dk_\<close> nor with \<^verbatim>\<open>ak_\<close> (the
  empty key among them), makes the constructor raise \<open>ValueError\<close>; a key with one of the
  two prefixes is accepted and stored. In both cases the constructor issues no HTTP call.
\<close>

theorem Dandolo_init_key_prefix:
  "((key = None \<or> (\<exists>k. key = Some k \<and> \<not> startswith k ''dk_'' \<and> \<not> startswith k ''ak_'')) \<longrightarrow>
      (\<exists>msg. Dandolo_init key url tmo retries delay = (Inl (ValueError msg), [])))
   \<and> (\<forall>k. key = Some k \<and> (startswith k ''dk_'' \<or> startswith k ''ak_'') \<longrightarrow>
      (\<exists>c. Dandolo_init key url tmo retries delay = (Inr c, []) \<and> api_key c = k))"
proof (intro conjI allI impI)
  assume "key = None \<or> (\<exists>k. key = Some k \<and> \<not> startswith k ''dk_'' \<and> \<not> startswith k ''ak_'')"
  then show "\<exists>msg. Dandolo_init key url tmo retries delay = (Inl (ValueError msg), [])"
    by (auto simp: Dandolo_init_def)
next
  fix k
  assume k: "key = Some k \<and> (startswith k ''dk_'' \<or> startswith k ''ak_'')"
  then have "k \<noteq> []" by auto
  with k show "\<exists>c. Dandolo_init key url tmo retries delay = (Inr c, []) \<and> api_key c = k"
    by (auto simp: Dandolo_init_def)
qed

theorem Dandolo_init_key_prefix_witness:
  "(\<exists>msg. Dandolo_init None ''https://api.dandolo.ai'' 60 3 1 = (Inl (ValueError msg), []))
   \<and> (\<exists>msg. Dandolo_init (Some ''sk_live_1234'') ''https://api.dandolo.ai'' 60 3 1 =
               (Inl (ValueError msg), []))
   \<and> (\<exists>c. Dandolo_init (Some ''dk_1234'') ''https://api.dandolo.ai'' 60 3 1 = (Inr c, [])
           \<and> api_key c = ''dk_1234'')"
proof -
  have bad: "\<not> startswith ''sk_live_1234'' ''dk_'' \<and> \<not> startswith ''sk_live_1234'' ''ak_''"
    by simp
  have good: "startswith ''dk_1234'' ''dk_'' \<or> startswith ''dk_1234'' ''ak_''" by simp
  show ?thesis
    using Dandolo_init_key_prefix[of None "''https://api.dandolo.ai''" 60 3 1]
          Dandolo_init_key_prefix[of "Some ''sk_live_1234''" "''https://api.dandolo.ai''" 60 3 1]
          Dandolo_init_key_prefix[of "Some ''dk_1234''" "''https://api.dandolo.ai''" 60 3 1]
          bad good
    by simp
qed

section \<open>Key validation\<close>

text \<open>
  When the model-list request succeeds, the report has \<^verbatim>\<open>is_valid\<close> true and its
  \<^verbatim>\<open>key_type\<close> is \<^verbatim>\<open>agent\<close> if the configured key starts with \<^verbatim>\<open>ak_\<close> and
  \<^verbatim>\<open>developer\<close> otherwise, whatever the server answered. When the request raises an
  instance of \<open>DandoloError\<close>, the report has \<^verbatim>\<open>is_valid\<close> false and \<open>None\<close> in the four
  other fields.
\<close>

theorem validate_key_report:
  "(\<forall>v evs. request c tr ''GET'' ''/v1/models'' None = (Inr v, evs) \<longrightarrow>
      (\<exists>report. validate_key c tr = (Inr report, evs) \<and>
         map_of report ''is_valid'' = Some (PBool True) \<and>
         map_of report ''key_type'' =
           Some (PStr (if startswith (api_key c) ''ak_'' then ''agent'' else ''developer''))))
   \<and> (\<forall>e evs. request c tr ''GET'' ''/v1/models'' None = (Inl e, evs) \<and>
               isinstance_DandoloError e \<longrightarrow>
        validate_key c tr =
          (Inr [(''is_valid'', PBool False), (''key_type'', PNone), (''daily_usage'', PNone),
                (''daily_limit'', PNone), (''remaining'', PNone)], evs))"
  by (simp add: validate_key_def)

theorem validate_key_report_witness:
  "(\<exists>report.
      validate_key example_client (always (Responds (json_response 200 (PDict [(''data'', PList [])])))) =
        (Inr report, [HttpGet ''https://api.dandolo.ai/v1/models'' 60]) \<and>
      map_of report ''is_valid'' = Some (PBool True) \<and>
      map_of report ''key_type'' = Some (PStr ''agent''))
   \<and> validate_key example_client (always (Responds (plain_response 401))) =
        (Inr [(''is_valid'', PBool False), (''key_type'', PNone), (''daily_usage'', PNone),
              (''daily_limit'', PNone), (''remaining'', PNone)],
         [HttpGet ''https://api.dandolo.ai/v1/models'' 60])"
proof -
  let ?ok = "always (Responds (json_response 200 (PDict [(''data'', PList [])])))"
  let ?no = "always (Responds (plain_response 401))"
  have ok: "request example_client ?ok ''GET'' ''/v1/models'' None =
              (Inr (PDict [(''data'', PList [])]), [HttpGet ''https://api.dandolo.ai/v1/models'' 60])"
    by code_simp
  have no: "request example_client ?no ''GET'' ''/v1/models'' None =
              (Inl (AuthenticationError (PStr ''Invalid API key'')),
               [HttpGet ''https://api.dandolo.ai/v1/models'' 60])
            \<and> isinstance_DandoloError (AuthenticationError (PStr ''Invalid API key''))"
    by code_simp
  have k: "startswith (api_key example_client) ''ak_''" by (simp add: example_client_def)
  show ?thesis
    using validate_key_report[of example_client ?ok, THEN conjunct1, rule_format, OF ok]
          validate_key_report[of example_client ?no, THEN conjunct2, rule_format, OF no]
          k
    by simp
qed

text \<open>
  C9. Every error of the model-list request is to give the report with \<^verbatim>\<open>is_valid\<close>
  false and \<open>None\<close> in the other fields. The code does not do so when the dispatcher
  raises an exception that is no \<open>DandoloError\<close>: \<^verbatim>\<open>validate_key\<close> catches
  \<open>DandoloError\<close> only. For a 429 whose body is an HTML page the dispatcher raises the
  decoding error of \<^verbatim>\<open>response.json()\<close>, and \<^verbatim>\<open>validate_key\<close> raises it too instead of
  returning a report.
\<close>

theorem validate_key_undecodable_body:
  "validate_key example_client
     (always (Responds (text_response 429 ''<html>Too Many Requests</html>''))) =
     (Inl JSONDecodeError, [HttpGet ''https://api.dandolo.ai/v1/models'' 60])
   \<and> \<not> isinstance_DandoloError JSONDecodeError"
  by code_simp

section \<open>The model list\<close>

lemma Model_init_wellformed:
  assumes "wellformed_model x"
  shows "\<exists>m. Model_init n x = Inr m"
proof -
  from assms obtain e where e: "x = PDict e" "list_all (\<lambda>kv. fst kv \<in> set Model_fields) e"
      "map_of e ''id'' \<noteq> None"
    by (cases x) (auto simp: wellformed_model_def)
  then obtain i where "map_of e ''id'' = Some i" by blast
  with e show ?thesis by (simp add: Model_init_def Let_def)
qed

lemma Model_init_malformed:
  assumes "\<not> wellformed_model x"
  shows "Model_init n x = Inl TypeError"
  using assms
  by (cases x) (auto simp: wellformed_model_def Model_init_def split: option.splits)

lemma construct_models_wellformed:
  assumes "list_all wellformed_model xs"
  shows "\<exists>ms. construct_models now i xs = Inr ms \<and> length ms = length xs \<and>
              (\<forall>j<length xs. Model_init (now (i + j)) (xs ! j) = Inr (ms ! j))"
  using assms
proof (induction xs arbitrary: i)
  case Nil
  then show ?case by simp
next
  case (Cons x xs)
  from Cons.prems have wx: "wellformed_model x" and wxs: "list_all wellformed_model xs"
    by simp_all
  obtain m where m: "Model_init (now i) x = Inr m"
    using Model_init_wellformed[OF wx] by blast
  obtain ms where ms: "construct_models now (Suc i) xs = Inr ms"
      "length ms = length xs"
      "\<forall>j<length xs. Model_init (now (Suc i + j)) (xs ! j) = Inr (ms ! j)"
    using Cons.IH[OF wxs, of "Suc i"] by blast
  have "\<forall>j<length (x # xs). Model_init (now (i + j)) ((x # xs) ! j) = Inr ((m # ms) ! j)"
  proof (intro allI impI)
    fix j assume "j < length (x # xs)"
    then show "Model_init (now (i + j)) ((x # xs) ! j) = Inr ((m # ms) ! j)"
      using m ms(3) by (cases j) simp_all
  qed
  with m ms(1,2) show ?case by simp
qed

text \<open>
  C10 (as amended). Let the model-list request return a JSON object. If the object has no
  member \<^verbatim>\<open>data\<close>, \<^verbatim>\<open>Models.list\<close> returns the empty list. If \<^verbatim>\<open>data\<close> is a list
  whose elements are all objects with an \<^verbatim>\<open>id\<close> and with no member outside the six
  fields of \<^verbatim>\<open>Model\<close>, it returns one \<^verbatim>\<open>Model\<close> per element, in the same order, the
  \<open>i\<close>-th being \<^verbatim>\<open>Model(**data[i])\<close>.
\<close>

theorem Models_list_result:
  assumes "request c tr ''GET'' ''/v1/models'' None = (Inr (PDict d), evs)"
  shows "(map_of d ''data'' = None \<longrightarrow> Models_list c tr now = (Inr [], evs))
       \<and> (\<forall>xs. map_of d ''data'' = Some (PList xs) \<and> list_all wellformed_model xs \<longrightarrow>
            (\<exists>ms. Models_list c tr now = (Inr ms, evs) \<and> length ms = length xs \<and>
                  (\<forall>i<length xs. Model_init (now i) (xs ! i) = Inr (ms ! i))))"
proof (intro conjI allI impI)
  assume "map_of d ''data'' = None"
  then show "Models_list c tr now = (Inr [], evs)"
    using assms by (simp add: Models_list_def models_of_response_def)
next
  fix xs
  assume h: "map_of d ''data'' = Some (PList xs) \<and> list_all wellformed_model xs"
  then obtain ms where ms: "construct_models now 0 xs = Inr ms" "length ms = length xs"
      "\<forall>j<length xs. Model_init (now (0 + j)) (xs ! j) = Inr (ms ! j)"
    using construct_models_wellformed[of xs now 0] by blast
  have "Models_list c tr now = (Inr ms, evs)"
    using assms h ms(1) by (simp add: Models_list_def models_of_response_def)
  with ms(2,3) show "\<exists>ms. Models_list c tr now = (Inr ms, evs) \<and> length ms = length xs \<and>
                  (\<forall>i<length xs. Model_init (now i) (xs ! i) = Inr (ms ! i))"
    by auto
qed

theorem Models_list_result_witness:
  "Models_list example_client (always (Responds (json_response 200 (PDict [])))) example_clock =
     (Inr [], [HttpGet ''https://api.dandolo.ai/v1/models'' 60])
   \<and> (\<exists>ms. Models_list example_client
              (always (Responds (json_response 200
                 (PDict [(''data'', PList [PDict [(''id'', PStr ''llama-3''), (''created'', PInt 5)],
                                           PDict [(''id'', PStr ''auto-select'')]])]))))
              example_clock =
              (Inr ms, [HttpGet ''https://api.dandolo.ai/v1/models'' 60])
          \<and> length ms = 2
          \<and> model_id (ms ! 0) = PStr ''llama-3'' \<and> model_created (ms ! 0) = PInt 5
          \<and> model_id (ms ! 1) = PStr ''auto-select'' \<and> model_created (ms ! 1) = PInt 1700000001
          \<and> model_owned_by (ms ! 1) = PStr ''dandolo'')"
proof -
  let ?xs = "[PDict [(''id'', PStr ''llama-3''), (''created'', PInt 5)],
              PDict [(''id'', PStr ''auto-select'')]]"
  let ?tr0 = "always (Responds (json_response 200 (PDict [])))"
  let ?tr1 = "always (Responds (json_response 200 (PDict [(''data'', PList ?xs)])))"
  have r0: "request example_client ?tr0 ''GET'' ''/v1/models'' None =
              (Inr (PDict []), [HttpGet ''https://api.dandolo.ai/v1/models'' 60])"
    by code_simp
  have r1: "request example_client ?tr1 ''GET'' ''/v1/models'' None =
              (Inr (PDict [(''data'', PList ?xs)]), [HttpGet ''https://api.dandolo.ai/v1/models'' 60])"
    by code_simp
  have h: "map_of [(''data'', PList ?xs)] ''data'' = Some (PList ?xs) \<and>
           list_all wellformed_model ?xs"
    by (simp add: wellformed_model_def Model_fields_def)
  have first: "Models_list example_client ?tr0 example_clock =
     (Inr [], [HttpGet ''https://api.dandolo.ai/v1/models'' 60])"
    using Models_list_result[OF r0, of example_clock] by simp
  obtain ms where ms: "Models_list example_client ?tr1 example_clock =
        (Inr ms, [HttpGet ''https://api.dandolo.ai/v1/models'' 60])"
      "length ms = 2"
      "\<forall>i<2. Model_init (example_clock i) (?xs ! i) = Inr (ms ! i)"
    using Models_list_result[OF r1, of example_clock, THEN conjunct2, rule_format, OF h]
    by auto
  have m0: "Model_init (example_clock 0) (PDict [(''id'', PStr ''llama-3''), (''created'', PInt 5)]) =
              Inr (ms ! 0)"
    using ms(3)[rule_format, of 0] by simp
  have m1: "Model_init (example_clock 1) (PDict [(''id'', PStr ''auto-select'')]) = Inr (ms ! 1)"
    using ms(3)[rule_format, of 1] by simp
  have f0: "model_id (ms ! 0) = PStr ''llama-3'' \<and> model_created (ms ! 0) = PInt 5"
    using m0 by (simp add: Model_init_def Model_fields_def example_clock_def) (metis Model.select_convs(1,3))
  have f1: "model_id (ms ! 1) = PStr ''auto-select'' \<and> model_created (ms ! 1) = PInt 1700000001
          \<and> model_owned_by (ms ! 1) = PStr ''dandolo''"
    using m1 by (simp add: Model_init_def Model_fields_def example_clock_def) (metis Model.select_convs(1,3,4))
  note fields = f0 f1
  show ?thesis
  proof (rule conjI)
    show "Models_list example_client ?tr0 example_clock =
            (Inr [], [HttpGet ''https://api.dandolo.ai/v1/models'' 60])"
      by (rule first)
  next
    show "\<exists>ms. Models_list example_client ?tr1 example_clock =
              (Inr ms, [HttpGet ''https://api.dandolo.ai/v1/models'' 60])
          \<and> length ms = 2
          \<and> model_id (ms ! 0) = PStr ''llama-3'' \<and> model_created (ms ! 0) = PInt 5
          \<and> model_id (ms ! 1) = PStr ''auto-select'' \<and> model_created (ms ! 1) = PInt 1700000001
          \<and> model_owned_by (ms ! 1) = PStr ''dandolo''"
      using ms(1,2) f0 f1 by (intro exI[of _ ms]) simp
  qed
qed

text \<open>
  The claim as stated fails: an element with a member that is no field of \<^verbatim>\<open>Model\<close>
  (here \<^verbatim>\<open>permission\<close>, which OpenAI-compatible servers send) makes \<^verbatim>\<open>Model(**model)\<close>
  raise \<open>TypeError\<close>, and no list is returned.
\<close>

theorem Models_list_counterexample:
  "Models_list example_client
     (always (Responds (json_response 200
        (PDict [(''data'', PList [PDict [(''id'', PStr ''llama-3''), (''object'', PStr ''model''),
                                         (''permission'', PList [])]])]))))
     example_clock =
     (Inl TypeError, [HttpGet ''https://api.dandolo.ai/v1/models'' 60])"
proof -
  have "request example_client
     (always (Responds (json_response 200
        (PDict [(''data'', PList [PDict [(''id'', PStr ''llama-3''), (''object'', PStr ''model''),
                                         (''permission'', PList [])]])]))))
      ''GET'' ''/v1/models'' None =
     (Inr (PDict [(''data'', PList [PDict [(''id'', PStr ''llama-3''), (''object'', PStr ''model''),
                                         (''permission'', PList [])]])]),
      [HttpGet ''https://api.dandolo.ai/v1/models'' 60])"
    by code_simp
  then show ?thesis
    by (simp add: Models_list_def models_of_response_def Model_init_def Model_fields_def)
qed

section \<open>The chat-completion builder\<close>

lemma map_of_dict_setitem: "map_of (dict_setitem d k v) = (map_of d)(k \<mapsto> v)"
  by (induction d) (auto simp: fun_eq_iff)

text \<open>\<^verbatim>\<open>d.update(other)\<close> on its own lets the value of \<open>other\<close> win on a common key.\<close>

lemma map_of_dict_update: "map_of (dict_update d other) = map_of d ++ map_of (rev other)"
proof (induction other arbitrary: d)
  case Nil
  then show ?case by simp
next
  case (Cons kv other)
  obtain k v where kv: "kv = (k, v)" by (cases kv)
  have "map_of (dict_update d (kv # other)) = (map_of d)(k \<mapsto> v) ++ map_of (rev other)"
    unfolding kv dict_update.simps Cons.IH map_of_dict_setitem ..
  also have "\<dots> = map_of d ++ map_of (rev (kv # other))"
    by (simp add: kv fun_eq_iff map_add_def split: option.splits)
  finally show ?case .
qed

lemma map_of_rev_distinct:
  assumes "distinct (map fst xs)"
  shows "map_of (rev xs) = map_of xs"
  using assms
proof (induction xs)
  case Nil
  then show ?case by simp
next
  case (Cons kv xs)
  obtain k v where kv: "kv = (k, v)" by (cases kv)
  from Cons.prems have k: "map_of xs k = None" and d: "distinct (map fst xs)"
    by (simp_all add: kv map_of_eq_None_iff)
  show ?case
    using k by (auto simp: kv Cons.IH[OF d] fun_eq_iff map_add_def split: option.splits)
qed

lemma create_data_map:
  "map_of (create_data a) = map_of (required_fields a) ++ map_of (rev (kwargs a))"
proof -
  have "map_of (required_fields a) =
          map_of (let data = [(''model'', model a), (''messages'', messages a), (''stream'', stream a)];
                      data = (if max_tokens a \<noteq> PNone
                              then dict_setitem data ''max_tokens'' (max_tokens a) else data)
                  in (if temperature a \<noteq> PNone
                      then dict_setitem data ''temperature'' (temperature a) else data))"
    by (simp add: required_fields_def Let_def)
  then show ?thesis
    by (simp add: create_data_def Let_def map_of_dict_update)
qed

lemma dom_required_fields: "dom (map_of (required_fields a)) \<subseteq> set create_params"
  by (auto simp: required_fields_def create_params_def split: if_splits)

lemma bind_create_kwargs:
  assumes "bind_create args kw = Inr a"
  shows "kwargs a = filter (\<lambda>kv. fst kv \<notin> set create_params) kw \<and> distinct (map fst kw)"
proof -
  have d: "distinct (map fst kw)"
    using assms by (simp add: bind_create_def split: if_splits)
  have "kwargs a = filter (\<lambda>kv. fst kv \<notin> set create_params) kw"
    using assms by (auto simp: bind_create_def split: if_splits sum.splits)
  with d show ?thesis by simp
qed

text \<open>
  C2. For a call that binds to the signature of \<^verbatim>\<open>create\<close>, the extra keyword arguments
  are the keyword arguments that name no parameter, and the body sent is the required
  fields merged with them: a key of the required fields has the required field's value,
  every other key has the value the extra keyword arguments give it.
\<close>

theorem create_request_body:
  assumes "bind_create args kw = Inr a"
  shows "create c tr args kw =
           request c tr ''POST'' ''/v1/chat/completions'' (Some (PDict (create_data a)))
       \<and> kwargs a = filter (\<lambda>kv. fst kv \<notin> set create_params) kw
       \<and> map_of (create_data a) = map_of (kwargs a) ++ map_of (required_fields a)
       \<and> (\<forall>k v. map_of (required_fields a) k = Some v \<longrightarrow> map_of (create_data a) k = Some v)
       \<and> (\<forall>k. map_of (required_fields a) k = None \<longrightarrow>
              map_of (create_data a) k = map_of (kwargs a) k)"
proof -
  note b = bind_create_kwargs[OF assms]
  have kw: "kwargs a = filter (\<lambda>kv. fst kv \<notin> set create_params) kw" using b by simp
  have dist: "distinct (map fst (kwargs a))"
    using b by (simp add: distinct_map_filter)
  have "dom (map_of (kwargs a)) \<inter> set create_params = {}"
    by (auto simp: kw dom_map_of_conv_image_fst)
  then have disj: "dom (map_of (required_fields a)) \<inter> dom (map_of (kwargs a)) = {}"
    using dom_required_fields[of a] by blast
  have merge: "map_of (create_data a) = map_of (kwargs a) ++ map_of (required_fields a)"
    using map_add_comm[OF disj] by (simp add: create_data_map map_of_rev_distinct[OF dist])
  have call: "create c tr args kw =
           request c tr ''POST'' ''/v1/chat/completions'' (Some (PDict (create_data a)))"
    using assms by (simp add: create_def)
  have req: "\<forall>k v. map_of (required_fields a) k = Some v \<longrightarrow> map_of (create_data a) k = Some v"
    by (simp add: merge)
  have other: "\<forall>k. map_of (required_fields a) k = None \<longrightarrow>
              map_of (create_data a) k = map_of (kwargs a) k"
    by (simp add: merge map_add_def)
  from call kw merge req other show ?thesis by blast
qed

theorem create_request_body_witness:
  "map_of (create_data \<lparr> messages = example_messages, model = PStr ''auto-select'',
                          max_tokens = PInt 100, temperature = PNone, stream = PBool False,
                          kwargs = [(''top_k'', PInt 40)] \<rparr>) ''model'' =
     Some (PStr ''auto-select'')
   \<and> map_of (create_data \<lparr> messages = example_messages, model = PStr ''auto-select'',
                          max_tokens = PInt 100, temperature = PNone, stream = PBool False,
                          kwargs = [(''top_k'', PInt 40)] \<rparr>) ''max_tokens'' =
     Some (PInt 100)
   \<and> map_of (create_data \<lparr> messages = example_messages, model = PStr ''auto-select'',
                          max_tokens = PInt 100, temperature = PNone, stream = PBool False,
                          kwargs = [(''top_k'', PInt 40)] \<rparr>) ''top_k'' =
     Some (PInt 40)"
proof -
  let ?a = "\<lparr> messages = example_messages, model = PStr ''auto-select'',
               max_tokens = PInt 100, temperature = PNone, stream = PBool False,
               kwargs = [(''top_k'', PInt 40)] \<rparr>"
  have b: "bind_create [example_messages] [(''top_k'', PInt 40), (''max_tokens'', PInt 100)] =
             Inr ?a"
    by code_simp
  note inst = create_request_body[OF b, of example_client "always Timeout"]
  have r1: "map_of (required_fields ?a) ''model'' = Some (PStr ''auto-select'')"
    by (simp add: required_fields_def)
  have r2: "map_of (required_fields ?a) ''max_tokens'' = Some (PInt 100)"
    by (simp add: required_fields_def)
  have r3: "map_of (required_fields ?a) ''top_k'' = None"
    by (simp add: required_fields_def)
  have k: "map_of (kwargs ?a) ''top_k'' = Some (PInt 40)" by simp
  have req: "\<And>k v. map_of (required_fields ?a) k = Some v \<Longrightarrow> map_of (create_data ?a) k = Some v"
    using inst by blast
  have oth: "\<And>k. map_of (required_fields ?a) k = None \<Longrightarrow>
                map_of (create_data ?a) k = map_of (kwargs ?a) k"
    using inst by blast
  show ?thesis
    using req[OF r1] req[OF r2] oth[OF r3] k by simp
qed

text \<open>
  C1. \<^verbatim>\<open>create\<close> hands back what the dispatcher returned: for the 200 body
  \<^verbatim>\<open>{"choices": [{"index": 0, "message": {"role": "assistant", "content": "hi"}}],
  "id": "x"}\<close> the result is that dictionary itself. No \<^verbatim>\<open>ChatCompletion\<close> and no
  \<^verbatim>\<open>Choice\<close> is constructed from it.
\<close>

theorem create_returns_decoded_body:
  "create example_client (always (Responds (json_response 200 example_completion)))
     [] [(''messages'', example_messages)] =
     (Inr (PDict [(''choices'',
                   PList [PDict [(''index'', PInt 0),
                                 (''message'', PDict [(''role'', PStr ''assistant''),
                                                      (''content'', PStr ''hi'')])]]),
                  (''id'', PStr ''x'')]),
      [HttpPost ''https://api.dandolo.ai/v1/chat/completions''
         (Some (PDict [(''model'', PStr ''auto-select''),
                       (''messages'',
                        PList [PDict [(''role'', PStr ''user''), (''content'', PStr ''Hello!'')]]),
                       (''stream'', PBool False)]))
         60])"
  by code_simp

end
